theory Spec2Isabelle
  imports Complex_Main "HOL-Library.Sublist"
begin

section \<open>JavaScript primitives used by the dashboard and the store list\<close>

text \<open>
  A string is a \<open>char list\<close>, a \<open>char\<close> standing for one code unit of the JavaScript
  string. Two builtins whose result depends on the Unicode tables are arguments of the
  functions that call them: \<open>isWhiteSpace\<close>, which says of a code unit whether
  \<open>String.prototype.trim\<close> strips it (white space and line terminators, each a single
  code unit), and \<open>toLowerCase\<close>, the function \<open>String.prototype.toLowerCase\<close> itself.
  \<open>trim\<close> strips the white space at both ends.
\<close>

definition trim :: "(char \<Rightarrow> bool) \<Rightarrow> string \<Rightarrow> string" where
  "trim isWhiteSpace s = rev (dropWhile isWhiteSpace (rev (dropWhile isWhiteSpace s)))"

text \<open>\<open>s.includes(t)\<close>: \<open>t\<close> occurs in \<open>s\<close> as a contiguous run.\<close>

fun str_includes :: "string \<Rightarrow> string \<Rightarrow> bool" where
  "str_includes [] t = (t = [])"
| "str_includes (c # s) t = (prefix t (c # s) \<or> str_includes s t)"

definition startsWith :: "string \<Rightarrow> string \<Rightarrow> bool" where
  "startsWith s t = prefix t s"

text \<open>\<open>parts.join(sep)\<close>.\<close>

fun join :: "string \<Rightarrow> string list \<Rightarrow> string" where
  "join sep [] = []"
| "join sep [x] = x"
| "join sep (x # y # ys) = x @ sep @ join sep (y # ys)"

text \<open>
  A non-negative integer inside a template literal (\<open>`/api/products/${id}`\<close>) is
  rendered in decimal.
\<close>

fun numberToString :: "nat \<Rightarrow> string" where
  "numberToString n =
     (if n < 10 then [''0123456789'' ! n]
      else numberToString (n div 10) @ [''0123456789'' ! (n mod 10)])"

declare numberToString.simps [simp del]

text \<open>
  \<open>x || ""\<close> and \<open>x || null\<close> on a nullable string: the empty string is falsy, like
  \<open>null\<close> and \<open>undefined\<close>.
\<close>

definition orEmpty :: "string option \<Rightarrow> string" where
  "orEmpty x = (case x of None \<Rightarrow> [] | Some s \<Rightarrow> s)"

definition orNull :: "string option \<Rightarrow> string option" where
  "orNull x = (case x of None \<Rightarrow> None | Some s \<Rightarrow> if s = [] then None else Some s)"

definition orZero :: "int option \<Rightarrow> int" where
  "orZero x = (case x of None \<Rightarrow> 0 | Some n \<Rightarrow> n)"

definition orFalse :: "bool option \<Rightarrow> bool" where
  "orFalse x = (case x of None \<Rightarrow> False | Some b \<Rightarrow> b)"

definition orNil :: "'a list option \<Rightarrow> 'a list" where
  "orNil x = (case x of None \<Rightarrow> [] | Some xs \<Rightarrow> xs)"

section \<open>Data model\<close>

text \<open>
  Modelled from the spec: the entity types \<open>Store\<close>, \<open>Product\<close> and \<open>Order\<close> are
  imported from \<open>@shared/schema\<close>, which is not part of the sources. The records hold
  the attributes the spec's data model lists and the handlers read; an attribute the
  code defends with \<open>||\<close> or \<open>?.\<close> is nullable.
\<close>

record store =
  store_id :: nat
  store_name :: string
  store_description :: "string option"
  store_address :: "string option"
  store_ownerId :: nat

record product =
  p_id :: nat
  p_storeId :: nat
  p_name :: string
  p_description :: "string option"
  p_price :: string
  p_originalPrice :: "string option"
  p_categoryId :: "int option"
  p_stock :: "int option"
  p_images :: "string list option"
  p_isFastSell :: "bool option"
  p_isOnOffer :: "bool option"
  p_offerPercentage :: "int option"
  p_offerEndDate :: "string option"
  p_specifications :: "(string \<times> string) list option"
  p_features :: "string list option"
  p_tags :: "string list option"
  p_isActive :: "bool option"
  p_createdAt :: string

record order =
  order_id :: nat
  totalAmount :: string
  status :: string

text \<open>\<open>ProductForm\<close>, the type inferred from \<open>productSchema\<close>.\<close>

record product_form =
  f_name :: string
  f_description :: "string option"
  f_price :: string
  f_originalPrice :: "string option"
  f_categoryId :: int
  f_stock :: int
  f_imageUrl :: "string option"
  f_images :: "string list"
  f_isFastSell :: bool
  f_isOnOffer :: bool
  f_offerPercentage :: int
  f_offerEndDate :: "string option"
  f_specifications :: "(string \<times> string) list"
  f_features :: "string list"
  f_tags :: "string list"

text \<open>\<open>StoreForm\<close>, the type inferred from \<open>storeSchema\<close>.\<close>

record store_form =
  sf_name :: string
  sf_description :: "string option"
  sf_address :: string
  sf_latitude :: "string option"
  sf_longitude :: "string option"
  sf_phone :: "string option"
  sf_logo :: "string option"
  sf_coverImage :: "string option"
  sf_googleMapsLink :: "string option"

text \<open>The object literal \<open>filteredData\<close> that \<open>handleAddProduct\<close> sends.\<close>

record product_payload =
  fd_name :: string
  fd_description :: "string option"
  fd_price :: string
  fd_originalPrice :: "string option"
  fd_categoryId :: int
  fd_storeId :: nat
  fd_stock :: int
  fd_images :: "string list"
  fd_isFastSell :: bool
  fd_isOnOffer :: bool
  fd_offerPercentage :: int
  fd_offerEndDate :: "string option"
  fd_isActive :: bool

record toast =
  toast_title :: string
  toast_description :: "string option"
  toast_variant :: "string option"

record upload_file =
  file_size :: nat
  file_type :: string

text \<open>
  The HTTP helpers \<open>apiPost\<close>, \<open>apiPut\<close> and \<open>apiDelete\<close> are opaque collaborators:
  a call is logged as a request, and its outcome (the promise resolves, or rejects with a
  thrown value) is an argument of the handler that awaits it.
\<close>

datatype http_request =
  Post string product_payload
| Put string product_payload
| Delete string

text \<open>The body a request carries, if it carries one.\<close>

fun payload_of :: "http_request \<Rightarrow> product_payload option" where
  "payload_of (Post url body) = Some body"
| "payload_of (Put url body) = Some body"
| "payload_of (Delete url) = None"

datatype js_error = ErrorObject string | OtherValue

datatype api_outcome = Resolved | Rejected js_error

section \<open>The owner dashboard\<close>

text \<open>
  The state a handler of \<open>ShopkeeperDashboard\<close> can read or change: the data of the
  three queries (absent until fetched), the component state, the two forms (for the
  product form also the default values a \<open>form.reset()\<close> without argument goes back
  to: \<open>form.reset(values)\<close> makes \<open>values\<close> the new defaults), and, as
  logs, the notifications shown, the HTTP requests issued, the query keys passed to
  \<open>queryClient.invalidateQueries\<close> and the files handed to \<open>FileReader.readAsDataURL\<close>.
\<close>

record dashboard =
  stores_data :: "store list option"
  products_data :: "product list option"
  orders_data :: "order list option"
  editingProduct :: "product option"
  activeTab :: string
  isGettingLocation :: bool
  form :: product_form
  formDefaultValues :: product_form
  storeForm :: store_form
  toasts :: "toast list"
  requests :: "http_request list"
  invalidated :: "string list list"
  readAsDataURL :: "upload_file list"

definition stores :: "dashboard \<Rightarrow> store list" where
  "stores s = orNil (stores_data s)"

definition products :: "dashboard \<Rightarrow> product list" where
  "products s = orNil (products_data s)"

definition orders :: "dashboard \<Rightarrow> order list" where
  "orders s = orNil (orders_data s)"

definition currentStore :: "dashboard \<Rightarrow> store option" where
  "currentStore s = (case stores s of [] \<Rightarrow> None | st # _ \<Rightarrow> Some st)"

definition defaultValues :: product_form where
  "defaultValues =
     \<lparr>f_name = [], f_description = Some [], f_price = [], f_originalPrice = Some [],
      f_categoryId = 1, f_stock = 0, f_imageUrl = Some [], f_images = [],
      f_isFastSell = False, f_isOnOffer = False, f_offerPercentage = 0,
      f_offerEndDate = Some [], f_specifications = [], f_features = [], f_tags = []\<rparr>"

definition toast_call :: "toast \<Rightarrow> dashboard \<Rightarrow> dashboard" where
  "toast_call t s = s\<lparr>toasts := toasts s @ [t]\<rparr>"

definition invalidateQueries :: "string list \<Rightarrow> dashboard \<Rightarrow> dashboard" where
  "invalidateQueries queryKey s = s\<lparr>invalidated := invalidated s @ [queryKey]\<rparr>"

definition storeDefaultValues :: store_form where
  "storeDefaultValues =
     \<lparr>sf_name = [], sf_description = Some [], sf_address = [], sf_latitude = None,
      sf_longitude = None, sf_phone = Some [], sf_logo = Some [], sf_coverImage = Some [],
      sf_googleMapsLink = None\<rparr>"

text \<open>The dashboard as it is mounted, before any query has returned.\<close>

definition mounted :: dashboard where
  "mounted =
     \<lparr>stores_data = None, products_data = None, orders_data = None,
      editingProduct = None, activeTab = ''overview'', isGettingLocation = False,
      form = defaultValues, formDefaultValues = defaultValues,
      storeForm = storeDefaultValues,
      toasts = [], requests = [], invalidated = [], readAsDataURL = []\<rparr>"

subsection \<open>Stats calculations\<close>

text \<open>
  \<open>Number(order.totalAmount)\<close> yields a JavaScript number; the coercion \<open>Number\<close> is an
  argument, and the numbers are any type with a \<open>0\<close> and a \<open>+\<close>, of which no law is
  assumed. \<open>orders.reduce\<close> folds from the left, starting at \<open>0\<close>.
\<close>

definition totalOrders :: "dashboard \<Rightarrow> nat" where
  "totalOrders s = length (orders s)"

definition totalProducts :: "dashboard \<Rightarrow> nat" where
  "totalProducts s = length (products s)"

definition totalRevenue :: "(string \<Rightarrow> 'n::{zero,plus}) \<Rightarrow> dashboard \<Rightarrow> 'n" where
  "totalRevenue Number s =
     foldl (\<lambda>sum order. sum + Number (totalAmount order)) 0 (orders s)"

definition pendingOrders :: "dashboard \<Rightarrow> nat" where
  "pendingOrders s = length (filter (\<lambda>order. status order = ''pending'') (orders s))"

subsection \<open>Saving a product\<close>

text \<open>
  The object literal \<open>filteredData\<close> of \<open>handleAddProduct\<close>, built from the validated
  form data and the current store.
\<close>

definition filteredData :: "(char \<Rightarrow> bool) \<Rightarrow> product_form \<Rightarrow> store \<Rightarrow> product_payload" where
  "filteredData isWhiteSpace data st =
     \<lparr>fd_name = trim isWhiteSpace (f_name data),
      fd_description = orNull (map_option (trim isWhiteSpace) (f_description data)),
      fd_price = f_price data,
      fd_originalPrice = orNull (f_originalPrice data),
      fd_categoryId = f_categoryId data,
      fd_storeId = store_id st,
      fd_stock = f_stock data,
      fd_images = filter (\<lambda>img. trim isWhiteSpace img \<noteq> []) (f_images data),
      fd_isFastSell = f_isFastSell data,
      fd_isOnOffer = f_isOnOffer data,
      fd_offerPercentage = (if f_isOnOffer data then f_offerPercentage data else 0),
      fd_offerEndDate = (if f_isOnOffer data then orNull (f_offerEndDate data) else None),
      fd_isActive = True\<rparr>"

text \<open>
  \<open>handleAddProduct(data)\<close>, awaiting one HTTP call whose outcome is \<open>res\<close>: a PUT when
  a product is being edited, a POST otherwise.
\<close>

definition handleAddProduct ::
  "(char \<Rightarrow> bool) \<Rightarrow> dashboard \<Rightarrow> product_form \<Rightarrow> api_outcome \<Rightarrow> dashboard" where
  "handleAddProduct isWhiteSpace s data res =
     (case currentStore s of
        None \<Rightarrow>
          toast_call \<lparr>toast_title = ''Error'',
                      toast_description = Some ''Please select a store first'',
                      toast_variant = Some ''destructive''\<rparr> s
      | Some st \<Rightarrow>
          (let fd = filteredData isWhiteSpace data st;
               req = (case editingProduct s of
                        Some p \<Rightarrow> Put (''/api/products/'' @ numberToString (p_id p)) fd
                      | None \<Rightarrow> Post ''/api/products'' fd);
               s1 = s\<lparr>requests := requests s @ [req]\<rparr>
           in case res of
                Rejected e \<Rightarrow>
                  toast_call \<lparr>toast_title = ''Error'',
                              toast_description =
                                Some (case e of ErrorObject message \<Rightarrow> message
                                      | OtherValue \<Rightarrow> ''Failed to save product''),
                              toast_variant = Some ''destructive''\<rparr> s1
              | Resolved \<Rightarrow>
                  (let s2 = toast_call
                              \<lparr>toast_title =
                                 (case editingProduct s of
                                    Some p \<Rightarrow> ''Product updated successfully''
                                  | None \<Rightarrow> ''Product added successfully''),
                               toast_description = None, toast_variant = None\<rparr> s1;
                       s3 = s2\<lparr>form := formDefaultValues s2\<rparr>;
                       s4 = s3\<lparr>editingProduct := None\<rparr>
                   in invalidateQueries
                        [''/api/products/store/'' @ numberToString (store_id st)] s4)))"

definition handleEditProduct :: "dashboard \<Rightarrow> product \<Rightarrow> dashboard" where
  "handleEditProduct s p =
     (let values =
         \<lparr>f_name = p_name p,
          f_description = Some (orEmpty (p_description p)),
          f_price = p_price p,
          f_originalPrice = Some (orEmpty (p_originalPrice p)),
          f_categoryId = orZero (p_categoryId p),
          f_stock = orZero (p_stock p),
          f_imageUrl = Some (case orNil (p_images p) of [] \<Rightarrow> [] | img # _ \<Rightarrow> img),
          f_images = orNil (p_images p),
          f_isFastSell = orFalse (p_isFastSell p),
          f_isOnOffer = orFalse (p_isOnOffer p),
          f_offerPercentage = orZero (p_offerPercentage p),
          f_offerEndDate = Some (orEmpty (p_offerEndDate p)),
          f_specifications = orNil (p_specifications p),
          f_features = orNil (p_features p),
          f_tags = orNil (p_tags p)\<rparr>
      in s\<lparr>editingProduct := Some p, form := values, formDefaultValues := values,
           activeTab := ''add-product''\<rparr>)"

text \<open>
  \<open>productSchema\<close>, the validation of the product form. \<open>parseFloat\<close> is a builtin
  and an argument; its result is a JavaScript number: not-a-number, an infinity, or a
  finite value, a rational. The refinement of a price is
  \<open>!isNaN(num) && num > 0 && num <= 99999999.99\<close>, where the literal denotes the
  nearest double, \<open>6710886399328911 / 2^26\<close>.
\<close>

datatype js_float = NaN | Num rat | PlusInfinity | MinusInfinity

definition priceRefine :: "(string \<Rightarrow> js_float) \<Rightarrow> string \<Rightarrow> bool" where
  "priceRefine parseFloat val =
     (case parseFloat val of
        Num num \<Rightarrow> num > 0 \<and> num \<le> 6710886399328911 / 67108864
      | NaN \<Rightarrow> False
      | PlusInfinity \<Rightarrow> False
      | MinusInfinity \<Rightarrow> False)"

definition productSchema :: "(string \<Rightarrow> js_float) \<Rightarrow> product_form \<Rightarrow> bool" where
  "productSchema parseFloat data =
     (length (f_name data) \<ge> 1 \<and>
      length (f_price data) \<ge> 1 \<and> priceRefine parseFloat (f_price data) \<and>
      (case f_originalPrice data of
         None \<Rightarrow> True
       | Some val \<Rightarrow> if val = [] then True else priceRefine parseFloat val) \<and>
      f_categoryId data \<ge> 1 \<and>
      f_stock data \<ge> 0 \<and>
      f_offerPercentage data \<ge> 0 \<and> f_offerPercentage data \<le> 100)"

text \<open>
  \<open>form.handleSubmit(handleAddProduct)\<close>, the submit handler of the product form: the
  form values are checked by \<open>zodResolver(productSchema)\<close>, and \<open>handleAddProduct\<close>
  is called with them only when they pass. When they do not, the form shows the
  messages of the fields and no handler of the dashboard runs.
\<close>

definition handleSubmit ::
  "(char \<Rightarrow> bool) \<Rightarrow> (string \<Rightarrow> js_float) \<Rightarrow> dashboard \<Rightarrow> api_outcome \<Rightarrow> dashboard" where
  "handleSubmit isWhiteSpace parseFloat s res =
     (if productSchema parseFloat (form s) then handleAddProduct isWhiteSpace s (form s) res
      else s)"

text \<open>
  \<open>handleDeleteProduct(productId)\<close>: \<open>confirmed\<close> is the answer to the \<open>confirm\<close>
  dialog, \<open>res\<close> the outcome of \<open>apiDelete\<close>.
\<close>

definition handleDeleteProduct :: "dashboard \<Rightarrow> nat \<Rightarrow> bool \<Rightarrow> api_outcome \<Rightarrow> dashboard" where
  "handleDeleteProduct s productId confirmed res =
     (if \<not> confirmed then s
      else
        (let s1 = s\<lparr>requests :=
                      requests s @ [Delete (''/api/products/'' @ numberToString productId)]\<rparr>
         in case res of
              Resolved \<Rightarrow>
                (let s2 = toast_call \<lparr>toast_title = ''Product deleted successfully'',
                                      toast_description = None, toast_variant = None\<rparr> s1
                 in case currentStore s of
                      Some st \<Rightarrow>
                        invalidateQueries [''/api/products'']
                          (invalidateQueries
                             [''/api/products/store/'' @ numberToString (store_id st)] s2)
                    | None \<Rightarrow> s2)
            | Rejected e \<Rightarrow>
                toast_call \<lparr>toast_title = ''Error'',
                            toast_description = Some ''Failed to delete product'',
                            toast_variant = Some ''destructive''\<rparr> s1))"

subsection \<open>Staging an uploaded image\<close>

text \<open>
  \<open>handleFileUpload(e)\<close>: \<open>f\<close> is \<open>e.target.files?.[0]\<close>, and \<open>result\<close> is what the
  reader's \<open>onload\<close> receives (\<open>None\<close> when it has no result).
\<close>

definition handleFileUpload :: "dashboard \<Rightarrow> upload_file option \<Rightarrow> string option \<Rightarrow> dashboard" where
  "handleFileUpload s f result =
     (case f of
        None \<Rightarrow> s
      | Some file \<Rightarrow>
          if file_size file > 2 * 1024 * 1024 then
            toast_call \<lparr>toast_title = ''File too large'',
                        toast_description = Some ''Please select an image smaller than 2MB'',
                        toast_variant = Some ''destructive''\<rparr> s
          else if \<not> startsWith (file_type file) ''image/'' then
            toast_call \<lparr>toast_title = ''Please upload an image file'',
                        toast_description = None,
                        toast_variant = Some ''destructive''\<rparr> s
          else
            (let s1 = s\<lparr>readAsDataURL := readAsDataURL s @ [file]\<rparr>
             in case result of
                  None \<Rightarrow> s1
                | Some base64 \<Rightarrow>
                    if base64 = [] then s1
                    else s1\<lparr>form := (form s1)\<lparr>f_images := f_images (form s1) @ [base64]\<rparr>\<rparr>))"

subsection \<open>Getting the owner's location\<close>

text \<open>
  The JSON body of the reverse-geocoding response, as far as \<open>handleGetLocation\<close> reads
  it. The call either throws (\<open>fetch\<close> or \<open>response.json()\<close> rejects, or the body is
  \<open>null\<close>, so that reading \<open>data.display_name\<close> throws) or yields a body.
\<close>

record nominatim_address =
  na_house_number :: "string option"
  na_road :: "string option"
  na_city :: "string option"
  na_town :: "string option"
  na_village :: "string option"
  na_county :: "string option"
  na_district :: "string option"
  na_state :: "string option"
  na_country :: "string option"
  na_postcode :: "string option"

record nominatim_response =
  display_name :: "string option"
  address :: "nominatim_address option"

datatype geocode_outcome = GeocodeThrew | GeocodeJson nominatim_response

text \<open>\<open>data.address?.a || data.address?.b || ... || ''\<close>: the first truthy alternative.\<close>

fun firstTruthy :: "string option list \<Rightarrow> string" where
  "firstTruthy [] = []"
| "firstTruthy (x # xs) = (if orEmpty x \<noteq> [] then orEmpty x else firstTruthy xs)"

definition addressField :: "nominatim_response \<Rightarrow> (nominatim_address \<Rightarrow> string option) \<Rightarrow> string option" where
  "addressField data sel = (case address data of None \<Rightarrow> None | Some a \<Rightarrow> sel a)"

definition formatAddress :: "nominatim_response \<Rightarrow> string" where
  "formatAddress data =
     (let houseNumber = firstTruthy [addressField data na_house_number];
          street = firstTruthy [addressField data na_road];
          city = firstTruthy [addressField data na_city, addressField data na_town,
                              addressField data na_village];
          district = firstTruthy [addressField data na_county, addressField data na_district];
          state = firstTruthy [addressField data na_state];
          country = firstTruthy [addressField data na_country]
      in join '', ''
           (filter (\<lambda>part. part \<noteq> [])
              [if houseNumber = [] then [] else houseNumber @ '' '' @ street,
               city, district, state, country]))"

definition addressLookupFailed :: string where
  "addressLookupFailed = ''Location coordinates set but address lookup failed''"

text \<open>
  A coordinate is a JavaScript number. \<open>handleGetLocation\<close> uses two renderings of
  it and nothing else: the one of a template literal and of \<open>toString()\<close>, and the one
  of \<open>toFixed(6)\<close>.
\<close>

record js_number =
  toString :: string
  toFixed6 :: string

text \<open>
  \<open>handleGetLocation()\<close>: \<open>supported\<close> says whether \<open>navigator.geolocation\<close> exists,
  \<open>position\<close> is the outcome of \<open>getCurrentPosition\<close> (\<open>None\<close> when it rejects) and
  \<open>geocode\<close> the outcome of the reverse-geocoding call.
\<close>

definition handleGetLocation ::
  "dashboard \<Rightarrow> bool \<Rightarrow> (js_number \<times> js_number) option \<Rightarrow> geocode_outcome \<Rightarrow> dashboard" where
  "handleGetLocation s supported position geocode =
     (if \<not> supported then
        toast_call \<lparr>toast_title = ''Error'',
                    toast_description = Some ''Geolocation is not supported by this browser'',
                    toast_variant = Some ''destructive''\<rparr> s
      else
        (let s1 = s\<lparr>isGettingLocation := True\<rparr>
         in case position of
              None \<Rightarrow>
                (toast_call
                   \<lparr>toast_title = ''Error getting location'',
                    toast_description =
                      Some ''Please ensure location access is enabled and try again'',
                    toast_variant = Some ''destructive''\<rparr> s1)\<lparr>isGettingLocation := False\<rparr>
            | Some (latitude, longitude) \<Rightarrow>
                (let s2 = s1\<lparr>storeForm := (storeForm s1)\<lparr>sf_latitude := Some (toString latitude)\<rparr>\<rparr>;
                     s3 = s2\<lparr>storeForm := (storeForm s2)\<lparr>sf_longitude := Some (toString longitude)\<rparr>\<rparr>;
                     googleMapsLink =
                       ''https://maps.google.com/?q='' @ toString latitude @ '','' @ toString longitude;
                     s4 = s3\<lparr>storeForm := (storeForm s3)\<lparr>sf_googleMapsLink := Some googleMapsLink\<rparr>\<rparr>;
                     s5 = (case geocode of
                             GeocodeThrew \<Rightarrow>
                               s4\<lparr>storeForm := (storeForm s4)\<lparr>sf_address := addressLookupFailed\<rparr>\<rparr>
                           | GeocodeJson data \<Rightarrow>
                               if orEmpty (display_name data) \<noteq> [] then
                                 s4\<lparr>storeForm := (storeForm s4)\<lparr>sf_address := formatAddress data\<rparr>\<rparr>
                               else s4);
                     s6 = toast_call
                            \<lparr>toast_title = ''Location obtained successfully'',
                             toast_description =
                               Some (''Coordinates: '' @ toFixed6 latitude @ '', '' @ toFixed6 longitude),
                             toast_variant = None\<rparr> s5
                 in s6\<lparr>isGettingLocation := False\<rparr>)))"

section \<open>The store list\<close>

text \<open>
  \<open>filteredStores\<close> of \<open>Stores.tsx\<close>: the query data is filtered when it is an array
  (\<open>Some\<close>), and the result is empty otherwise.
\<close>

definition matchesSearch :: "(string \<Rightarrow> string) \<Rightarrow> string \<Rightarrow> store \<Rightarrow> bool" where
  "matchesSearch toLowerCase searchQuery st =
     (searchQuery = [] \<or>
      str_includes (toLowerCase (store_name st)) (toLowerCase searchQuery) \<or>
      (case store_description st of
         None \<Rightarrow> False
       | Some d \<Rightarrow> str_includes (toLowerCase d) (toLowerCase searchQuery)) \<or>
      (case store_address st of
         None \<Rightarrow> False
       | Some a \<Rightarrow> str_includes (toLowerCase a) (toLowerCase searchQuery)))"

definition filteredStores ::
  "(string \<Rightarrow> string) \<Rightarrow> store list option \<Rightarrow> string \<Rightarrow> store list" where
  "filteredStores toLowerCase stores_q searchQuery =
     (case stores_q of
        None \<Rightarrow> []
      | Some sts \<Rightarrow> filter (matchesSearch toLowerCase searchQuery) sts)"

section \<open>Example data\<close>

text \<open>
  The builtins on strings whose code units are below 256: the white space among them
  is TAB, LF, VT, FF, CR, SPACE and the no-break space; the letters with a lower case are
  A to Z and the accented capitals \<open>0xC0\<close> to \<open>0xDE\<close> (but the multiplication sign
  \<open>0xD7\<close>), each 32 below its lower case. \<open>demo_parseFloat\<close> gives the value of
  \<open>parseFloat\<close> on the two prices of the example product.
\<close>

definition demo_isWhiteSpace :: "char \<Rightarrow> bool" where
  "demo_isWhiteSpace c =
     (c \<in> set [CHR 0x09, CHR 0x0A, CHR 0x0B, CHR 0x0C, CHR 0x0D, CHR '' '', CHR 0xA0])"

definition demo_lowerChar :: "char \<Rightarrow> char" where
  "demo_lowerChar c =
     (let n = (of_char c :: nat)
      in if (65 \<le> n \<and> n \<le> 90) \<or> (192 \<le> n \<and> n \<le> 222 \<and> n \<noteq> 215)
         then char_of (n + 32) else c)"

definition demo_toLowerCase :: "string \<Rightarrow> string" where
  "demo_toLowerCase s = map demo_lowerChar s"

definition demo_parseFloat :: "string \<Rightarrow> js_float" where
  "demo_parseFloat val =
     (if val = ''250.00'' then Num 250 else if val = ''300.00'' then Num 300 else NaN)"

text \<open>A store, one of its products, a filled product form and a dashboard showing them.\<close>

definition demo_store :: store where
  "demo_store =
     \<lparr>store_id = 5, store_name = ''Himal Tea House'',
      store_description = Some ''Organic TEA and spices'',
      store_address = Some ''Dharan-12, Sunsari'', store_ownerId = 3\<rparr>"

definition demo_store2 :: store where
  "demo_store2 =
     \<lparr>store_id = 6, store_name = ''Bazaar Electronics'', store_description = None,
      store_address = Some ''Itahari-4'', store_ownerId = 4\<rparr>"

text \<open>A store named \<open>Caf\<close>, e with acute accent (\<open>0xE9\<close>), \<open> Namaste\<close>.\<close>

definition demo_store3 :: store where
  "demo_store3 =
     \<lparr>store_id = 8, store_name = ''Caf'' @ [CHR 0xE9] @ '' Namaste'', store_description = None,
      store_address = None, store_ownerId = 9\<rparr>"

definition demo_product :: product where
  "demo_product =
     \<lparr>p_id = 7, p_storeId = 5, p_name = ''Green Tea'', p_description = Some ''Loose leaf'',
      p_price = ''250.00'', p_originalPrice = Some ''300.00'', p_categoryId = Some 2,
      p_stock = Some 12, p_images = Some [''https://cdn.example/tea.png''],
      p_isFastSell = Some False, p_isOnOffer = Some True, p_offerPercentage = Some 15,
      p_offerEndDate = Some ''2025-12-31'',
      p_specifications = Some [(''Weight'', ''100g'')], p_features = Some [''Organic''],
      p_tags = Some [''tea''], p_isActive = Some True,
      p_createdAt = ''2025-01-01T00:00:00Z''\<rparr>"

definition demo_form :: product_form where
  "demo_form =
     \<lparr>f_name = '' Masala Chai '', f_description = Some ''Spiced tea'', f_price = ''120'',
      f_originalPrice = Some [], f_categoryId = 2, f_stock = 4, f_imageUrl = Some [],
      f_images = [''https://cdn.example/chai.png'', [], ''   '', ''data:image/jpeg;base64,AAAA''],
      f_isFastSell = False, f_isOnOffer = False, f_offerPercentage = 25,
      f_offerEndDate = Some ''2025-12-31'', f_specifications = [], f_features = [],
      f_tags = []\<rparr>"

definition demo_dashboard :: dashboard where
  "demo_dashboard = mounted\<lparr>stores_data := Some [demo_store], products_data := Some [demo_product]\<rparr>"

text \<open>
  Editing a product and submitting the form as \<open>handleEditProduct\<close> filled it: the
  payload \<open>handleAddProduct\<close> builds from these form values.
\<close>

definition resubmitted ::
  "(char \<Rightarrow> bool) \<Rightarrow> dashboard \<Rightarrow> product \<Rightarrow> store \<Rightarrow> product_payload" where
  "resubmitted isWhiteSpace s p st = filteredData isWhiteSpace (form (handleEditProduct s p)) st"

section \<open>Properties\<close>

subsection \<open>Helper lemmas\<close>

lemma all_dropWhile: "(\<forall>c \<in> set (dropWhile P s). P c) \<longleftrightarrow> (\<forall>c \<in> set s. P c)"
  by (induction s) auto

lemma trim_Nil_iff: "trim ws s = [] \<longleftrightarrow> list_all ws s"
  by (simp add: trim_def all_dropWhile list_all_iff)

lemma str_includes_sublist: "str_includes s t = sublist t s"
  by (induction s) (simp_all add: sublist_Cons_right)

lemma foldl_revenue:
  "foldl (\<lambda>sum order. sum + N (totalAmount order)) z os =
   foldl (+) z (map (\<lambda>order. N (totalAmount order)) os)"
  by (induction os arbitrary: z) simp_all

lemma trim_Nil: "trim ws [] = []"
  by (simp add: trim_def)

lemma numberToString_5: "numberToString 5 = ''5''"
  by (simp add: numberToString.simps)

lemma numberToString_7: "numberToString 7 = ''7''"
  by (simp add: numberToString.simps)

lemma currentStore_demo: "currentStore demo_dashboard = Some demo_store"
  by (simp add: currentStore_def stores_def orNil_def demo_dashboard_def mounted_def)

lemma currentStore_handleEditProduct: "currentStore (handleEditProduct s p) = currentStore s"
  by (simp add: currentStore_def stores_def handleEditProduct_def Let_def)

text \<open>\<open>handleAddProduct\<close> issues exactly one request when a store is selected, none otherwise.\<close>

lemma handleAddProduct_requests:
  "currentStore s = Some st \<Longrightarrow>
   requests (handleAddProduct ws s data res) =
     requests s @ [case editingProduct s of
                     Some p \<Rightarrow> Put (''/api/products/'' @ numberToString (p_id p)) (filteredData ws data st)
                   | None \<Rightarrow> Post ''/api/products'' (filteredData ws data st)]"
  by (simp add: handleAddProduct_def toast_call_def invalidateQueries_def Let_def
      split: api_outcome.splits)

lemma handleAddProduct_no_store:
  "currentStore s = None \<Longrightarrow> requests (handleAddProduct ws s data res) = requests s"
  by (simp add: handleAddProduct_def toast_call_def)

lemma payload_of_save_request:
  "payload_of (case e of Some p \<Rightarrow> Put (u p) fd | None \<Rightarrow> Post v fd) = Some fd"
  by (cases e) simp_all

text \<open>What \<open>handleGetLocation\<close> writes into the store form once a position is known.\<close>

lemma handleGetLocation_storeForm:
  "storeForm (handleGetLocation s True (Some (latitude, longitude)) geocode) =
     (storeForm s)\<lparr>sf_latitude := Some (toString latitude),
                    sf_longitude := Some (toString longitude),
                    sf_googleMapsLink :=
                      Some (''https://maps.google.com/?q='' @ toString latitude @ '','' @ toString longitude),
                    sf_address :=
                      (case geocode of
                         GeocodeThrew \<Rightarrow> addressLookupFailed
                       | GeocodeJson data \<Rightarrow>
                           if orEmpty (display_name data) \<noteq> [] then formatAddress data
                           else sf_address (storeForm s))\<rparr>"
  by (cases geocode) (simp_all add: handleGetLocation_def toast_call_def Let_def)

text \<open>The payload of an unchanged edit, field by field, in terms of the product.\<close>

lemma resubmitted_fields:
  "resubmitted ws s p st =
     \<lparr>fd_name = trim ws (p_name p),
      fd_description = orNull (map_option (trim ws) (p_description p)),
      fd_price = p_price p,
      fd_originalPrice = orNull (p_originalPrice p),
      fd_categoryId = orZero (p_categoryId p),
      fd_storeId = store_id st,
      fd_stock = orZero (p_stock p),
      fd_images = filter (\<lambda>img. trim ws img \<noteq> []) (orNil (p_images p)),
      fd_isFastSell = orFalse (p_isFastSell p),
      fd_isOnOffer = orFalse (p_isOnOffer p),
      fd_offerPercentage = (if orFalse (p_isOnOffer p) then orZero (p_offerPercentage p) else 0),
      fd_offerEndDate = (if orFalse (p_isOnOffer p) then orNull (p_offerEndDate p) else None),
      fd_isActive = True\<rparr>"
  by (cases "p_description p")
     (simp_all add: resubmitted_def filteredData_def handleEditProduct_def orNull_def orEmpty_def
        trim_Nil Let_def split: option.splits)

subsection \<open>Derived statistics\<close>

text \<open>
  C1: the displayed total revenue is the left-to-right sum, from \<open>0\<close>, of the numeric
  coercion of the \<open>totalAmount\<close> of each order in the cached order data; the order count
  and the product count are the lengths of the cached order and product data, and the
  pending count is the number of positions of the cached order data whose status is
  \<open>pending\<close> (all four are \<open>0\<close> while the data is absent). So all four are functions of
  the cached query data alone: two dashboard states holding the same order and product
  data show the same four values, whatever else differs between them.
\<close>

theorem stats_pure:
  "totalRevenue Number s =
     foldl (+) 0 (map (\<lambda>order. Number (totalAmount order))
                    (case orders_data s of None \<Rightarrow> [] | Some os \<Rightarrow> os))
   \<and> totalOrders s = (case orders_data s of None \<Rightarrow> 0 | Some os \<Rightarrow> length os)
   \<and> totalProducts s = (case products_data s of None \<Rightarrow> 0 | Some ps \<Rightarrow> length ps)
   \<and> pendingOrders s =
       (case orders_data s of
          None \<Rightarrow> 0
        | Some os \<Rightarrow> card {i. i < length os \<and> status (os ! i) = ''pending''})
   \<and> (orders_data s = orders_data s' \<and> products_data s = products_data s' \<longrightarrow>
        totalRevenue Number s = totalRevenue Number s' \<and> totalOrders s = totalOrders s'
        \<and> totalProducts s = totalProducts s' \<and> pendingOrders s = pendingOrders s')"
  by (simp add: totalRevenue_def totalOrders_def totalProducts_def pendingOrders_def
        foldl_revenue length_filter_conv_card orders_def products_def orNil_def
      split: option.splits)

theorem stats_pure_witness:
  "totalRevenue (\<lambda>a. if a = ''120'' then (120::int) else if a = ''80'' then 80 else 0)
     (demo_dashboard\<lparr>orders_data :=
        Some [\<lparr>order_id = 1, totalAmount = ''120'', status = ''pending''\<rparr>,
              \<lparr>order_id = 2, totalAmount = ''80'', status = ''delivered''\<rparr>]\<rparr>) = 200
   \<and> totalOrders
     (demo_dashboard\<lparr>orders_data :=
        Some [\<lparr>order_id = 1, totalAmount = ''120'', status = ''pending''\<rparr>,
              \<lparr>order_id = 2, totalAmount = ''80'', status = ''delivered''\<rparr>]\<rparr>) = 2
   \<and> totalProducts
     (demo_dashboard\<lparr>orders_data :=
        Some [\<lparr>order_id = 1, totalAmount = ''120'', status = ''pending''\<rparr>,
              \<lparr>order_id = 2, totalAmount = ''80'', status = ''delivered''\<rparr>]\<rparr>) = 1
   \<and> pendingOrders
     (demo_dashboard\<lparr>orders_data :=
        Some [\<lparr>order_id = 1, totalAmount = ''120'', status = ''pending''\<rparr>,
              \<lparr>order_id = 2, totalAmount = ''80'', status = ''delivered''\<rparr>]\<rparr>) = 1
   \<and> totalProducts
     (demo_dashboard\<lparr>orders_data :=
        Some [\<lparr>order_id = 1, totalAmount = ''120'', status = ''pending''\<rparr>,
              \<lparr>order_id = 2, totalAmount = ''80'', status = ''delivered''\<rparr>],
        activeTab := ''orders''\<rparr>) = 1"
  using stats_pure [of "\<lambda>a. if a = ''120'' then (120::int) else if a = ''80'' then 80 else 0"
     "demo_dashboard\<lparr>orders_data :=
        Some [\<lparr>order_id = 1, totalAmount = ''120'', status = ''pending''\<rparr>,
              \<lparr>order_id = 2, totalAmount = ''80'', status = ''delivered''\<rparr>]\<rparr>"
     "demo_dashboard\<lparr>orders_data :=
        Some [\<lparr>order_id = 1, totalAmount = ''120'', status = ''pending''\<rparr>,
              \<lparr>order_id = 2, totalAmount = ''80'', status = ''delivered''\<rparr>],
        activeTab := ''orders''\<rparr>"]
  by (simp add: totalRevenue_def totalOrders_def totalProducts_def pendingOrders_def
        orders_def products_def orNil_def demo_dashboard_def mounted_def)

subsection \<open>Location and address\<close>

text \<open>
  C2, as the handler behaves: once a position is obtained, the latitude and longitude
  fields hold the renderings of the coordinates and the map-link field is
  \<open>https://maps.google.com/?q=<latitude>,<longitude>\<close>, whatever the reverse-geocoding
  call does (for coordinates rendered \<open>26.7271\<close> and \<open>87.2751\<close> it is
  \<open>https://maps.google.com/?q=26.7271,87.2751\<close>). The address field is set to the fixed
  fallback string when the reverse-geocoding call throws; when the call returns a body
  without a \<open>display_name\<close> (or with an empty one), the address field keeps the value it
  had. In every case the operation ends with the success notification.
\<close>

theorem getLocation_address_and_link:
  "sf_latitude (storeForm (handleGetLocation s True (Some (latitude, longitude)) geocode)) =
     Some (toString latitude)
   \<and> sf_longitude (storeForm (handleGetLocation s True (Some (latitude, longitude)) geocode)) =
     Some (toString longitude)
   \<and> sf_googleMapsLink (storeForm (handleGetLocation s True (Some (latitude, longitude)) geocode)) =
     Some (''https://maps.google.com/?q='' @ toString latitude @ '','' @ toString longitude)
   \<and> (toString latitude = ''26.7271'' \<and> toString longitude = ''87.2751'' \<longrightarrow>
        sf_googleMapsLink (storeForm (handleGetLocation s True (Some (latitude, longitude)) geocode)) =
          Some ''https://maps.google.com/?q=26.7271,87.2751'')
   \<and> (geocode = GeocodeThrew \<longrightarrow>
        sf_address (storeForm (handleGetLocation s True (Some (latitude, longitude)) geocode)) =
          ''Location coordinates set but address lookup failed'')
   \<and> (\<forall>data. geocode = GeocodeJson data \<and> (display_name data = None \<or> display_name data = Some []) \<longrightarrow>
        sf_address (storeForm (handleGetLocation s True (Some (latitude, longitude)) geocode)) =
          sf_address (storeForm s))
   \<and> (\<exists>t. toasts (handleGetLocation s True (Some (latitude, longitude)) geocode) = toasts s @ [t]
          \<and> toast_title t = ''Location obtained successfully'')"
proof -
  have t: "\<exists>t. toasts (handleGetLocation s True (Some (latitude, longitude)) geocode) = toasts s @ [t]
          \<and> toast_title t = ''Location obtained successfully''"
    by (cases geocode) (simp_all add: handleGetLocation_def toast_call_def Let_def)
  show ?thesis
    using t by (auto simp: handleGetLocation_storeForm addressLookupFailed_def orEmpty_def)
qed

text \<open>
  With the address field holding \<open>Dharan-12\<close> and a response that has no
  \<open>display_name\<close>, the address field still holds \<open>Dharan-12\<close> afterwards, not the
  fallback string.
\<close>

theorem no_display_name_counterexample:
  "sf_address (storeForm (handleGetLocation
      (mounted\<lparr>storeForm := storeDefaultValues\<lparr>sf_address := ''Dharan-12''\<rparr>\<rparr>) True
      (Some (\<lparr>toString = ''26.7271'', toFixed6 = ''26.727100''\<rparr>,
             \<lparr>toString = ''87.2751'', toFixed6 = ''87.275100''\<rparr>))
      (GeocodeJson \<lparr>display_name = None, address = None\<rparr>))) = ''Dharan-12''
   \<and> sf_address (storeForm (handleGetLocation
      (mounted\<lparr>storeForm := storeDefaultValues\<lparr>sf_address := ''Dharan-12''\<rparr>\<rparr>) True
      (Some (\<lparr>toString = ''26.7271'', toFixed6 = ''26.727100''\<rparr>,
             \<lparr>toString = ''87.2751'', toFixed6 = ''87.275100''\<rparr>))
      (GeocodeJson \<lparr>display_name = None, address = None\<rparr>))) \<noteq>
     ''Location coordinates set but address lookup failed''"
  by (simp add: handleGetLocation_storeForm mounted_def orEmpty_def)

theorem getLocation_address_and_link_witness:
  "storeForm (handleGetLocation mounted True
      (Some (\<lparr>toString = ''26.7271'', toFixed6 = ''26.727100''\<rparr>,
             \<lparr>toString = ''87.2751'', toFixed6 = ''87.275100''\<rparr>)) GeocodeThrew) =
     storeDefaultValues\<lparr>sf_latitude := Some ''26.7271'', sf_longitude := Some ''87.2751'',
       sf_googleMapsLink := Some ''https://maps.google.com/?q=26.7271,87.2751'',
       sf_address := ''Location coordinates set but address lookup failed''\<rparr>
   \<and> sf_address (storeForm (handleGetLocation mounted True
      (Some (\<lparr>toString = ''26.7271'', toFixed6 = ''26.727100''\<rparr>,
             \<lparr>toString = ''87.2751'', toFixed6 = ''87.275100''\<rparr>))
      (GeocodeJson \<lparr>display_name = None, address = None\<rparr>))) = []"
  using getLocation_address_and_link [of mounted
      "\<lparr>toString = ''26.7271'', toFixed6 = ''26.727100''\<rparr>"
      "\<lparr>toString = ''87.2751'', toFixed6 = ''87.275100''\<rparr>" GeocodeThrew]
    getLocation_address_and_link [of mounted
      "\<lparr>toString = ''26.7271'', toFixed6 = ''26.727100''\<rparr>"
      "\<lparr>toString = ''87.2751'', toFixed6 = ''87.275100''\<rparr>"
      "GeocodeJson \<lparr>display_name = None, address = None\<rparr>"]
  by (simp add: handleGetLocation_storeForm mounted_def storeDefaultValues_def
        addressLookupFailed_def orEmpty_def)

subsection \<open>Invalidation after a product update\<close>

text \<open>
  C3: after a successful update of product 7 of store 5, the only query key
  \<open>handleAddProduct\<close> invalidates is \<open>/api/products/store/5\<close>; the key
  \<open>/api/products\<close> of all products is not among the invalidated keys, whereas a
  successful delete of the same product invalidates both.
\<close>

theorem update_invalidates_store_key_only:
  "invalidated (handleAddProduct demo_isWhiteSpace (handleEditProduct demo_dashboard demo_product)
                  (form (handleEditProduct demo_dashboard demo_product)) Resolved) =
     [[''/api/products/store/5'']]
   \<and> [''/api/products''] \<notin>
       set (invalidated (handleAddProduct demo_isWhiteSpace (handleEditProduct demo_dashboard demo_product)
                  (form (handleEditProduct demo_dashboard demo_product)) Resolved))
   \<and> invalidated (handleDeleteProduct demo_dashboard 7 True Resolved) =
       [[''/api/products/store/5''], [''/api/products'']]"
  by (simp add: handleAddProduct_def handleDeleteProduct_def handleEditProduct_def
      currentStore_def stores_def orNil_def demo_dashboard_def mounted_def demo_store_def
      toast_call_def invalidateQueries_def Let_def numberToString_5)

subsection \<open>Editing a product without changing it\<close>

text \<open>
  C4, as the handlers behave: let \<open>p\<close> be a product of the current store that is in the
  form the dashboard itself writes (name trimmed; description absent, or trimmed and not
  empty; original price not the empty string; category, stock and the two flags
  present; an image list without blank entries; offer percentage and end date present
  and not empty when on offer, \<open>0\<close> and absent when not; active), and whose values, as
  \<open>handleEditProduct\<close> fills the form with them, pass the validation of the form
  (\<open>productSchema\<close>). Opening \<open>p\<close> for editing and submitting the form as it was
  filled sends one request, \<open>PUT /api/products/<p.id>\<close>, whose payload has the name,
  description, price, original price, category, store, stock, images, flags, offer
  percentage, offer end date and active flag of \<open>p\<close>.
\<close>

theorem resubmit_roundtrip:
  assumes store: "currentStore s = Some st" "p_storeId p = store_id st"
    and valid: "productSchema parseFloat (form (handleEditProduct s p))"
    and name: "trim ws (p_name p) = p_name p"
    and description: "\<forall>d. p_description p = Some d \<longrightarrow> d \<noteq> [] \<and> trim ws d = d"
    and originalPrice: "p_originalPrice p \<noteq> Some []"
    and present: "p_categoryId p \<noteq> None" "p_stock p \<noteq> None" "p_isFastSell p \<noteq> None"
      "p_isOnOffer p \<noteq> None"
    and images: "\<exists>imgs. p_images p = Some imgs \<and> (\<forall>img \<in> set imgs. trim ws img \<noteq> [])"
    and offer: "if p_isOnOffer p = Some True
                then p_offerPercentage p \<noteq> None \<and> p_offerEndDate p \<noteq> Some []
                else p_offerPercentage p = Some 0 \<and> p_offerEndDate p = None"
    and active: "p_isActive p = Some True"
  shows "requests (handleSubmit ws parseFloat (handleEditProduct s p) res) =
           requests s @ [Put (''/api/products/'' @ numberToString (p_id p)) (resubmitted ws s p st)]
         \<and> fd_name (resubmitted ws s p st) = p_name p
         \<and> fd_description (resubmitted ws s p st) = p_description p
         \<and> fd_price (resubmitted ws s p st) = p_price p
         \<and> fd_originalPrice (resubmitted ws s p st) = p_originalPrice p
         \<and> Some (fd_categoryId (resubmitted ws s p st)) = p_categoryId p
         \<and> fd_storeId (resubmitted ws s p st) = p_storeId p
         \<and> Some (fd_stock (resubmitted ws s p st)) = p_stock p
         \<and> Some (fd_images (resubmitted ws s p st)) = p_images p
         \<and> Some (fd_isFastSell (resubmitted ws s p st)) = p_isFastSell p
         \<and> Some (fd_isOnOffer (resubmitted ws s p st)) = p_isOnOffer p
         \<and> Some (fd_offerPercentage (resubmitted ws s p st)) = p_offerPercentage p
         \<and> fd_offerEndDate (resubmitted ws s p st) = p_offerEndDate p
         \<and> Some (fd_isActive (resubmitted ws s p st)) = p_isActive p"
proof -
  have req: "requests (handleSubmit ws parseFloat (handleEditProduct s p) res) =
           requests s @ [Put (''/api/products/'' @ numberToString (p_id p)) (resubmitted ws s p st)]"
  proof -
    have "currentStore (handleEditProduct s p) = Some st"
      using store(1) by (simp add: currentStore_handleEditProduct)
    from handleAddProduct_requests [OF this, of ws "form (handleEditProduct s p)" res]
    have "requests (handleAddProduct ws (handleEditProduct s p) (form (handleEditProduct s p)) res) =
           requests s @ [Put (''/api/products/'' @ numberToString (p_id p)) (resubmitted ws s p st)]"
      by (simp add: resubmitted_def) (simp add: handleEditProduct_def Let_def)
    then show ?thesis
      using valid by (simp add: handleSubmit_def)
  qed
  have d: "fd_description (resubmitted ws s p st) = p_description p"
    using description by (cases "p_description p") (simp_all add: resubmitted_fields orNull_def)
  have op: "fd_originalPrice (resubmitted ws s p st) = p_originalPrice p"
    using originalPrice by (cases "p_originalPrice p") (simp_all add: resubmitted_fields orNull_def)
  have im: "Some (fd_images (resubmitted ws s p st)) = p_images p"
    using images by (auto simp: resubmitted_fields orNil_def)
  have pres: "Some (fd_categoryId (resubmitted ws s p st)) = p_categoryId p"
     "Some (fd_stock (resubmitted ws s p st)) = p_stock p"
     "Some (fd_isFastSell (resubmitted ws s p st)) = p_isFastSell p"
     "Some (fd_isOnOffer (resubmitted ws s p st)) = p_isOnOffer p"
    using present by (auto simp: resubmitted_fields orZero_def orFalse_def)
  have pct: "Some (fd_offerPercentage (resubmitted ws s p st)) = p_offerPercentage p"
    using offer present(4)
    by (cases "p_isOnOffer p"; cases "p_offerPercentage p")
       (auto simp: resubmitted_fields orZero_def orFalse_def split: if_splits)
  have dt: "fd_offerEndDate (resubmitted ws s p st) = p_offerEndDate p"
    using offer present(4)
    by (cases "p_isOnOffer p"; cases "p_offerEndDate p")
       (auto simp: resubmitted_fields orNull_def orFalse_def split: if_splits)
  have rest: "fd_name (resubmitted ws s p st) = p_name p"
     "fd_price (resubmitted ws s p st) = p_price p"
     "fd_storeId (resubmitted ws s p st) = p_storeId p"
     "Some (fd_isActive (resubmitted ws s p st)) = p_isActive p"
    using name store(2) active by (simp_all add: resubmitted_fields)
  from req d op im pres pct dt rest show ?thesis by simp
qed

text \<open>
  The payload does not determine the product: the example product and the same product
  with its specifications, features and tags emptied are sent as the same payload. An
  inactive product is sent as active, and a name with a trailing space is sent trimmed.
\<close>

theorem resubmit_roundtrip_counterexample:
  "resubmitted demo_isWhiteSpace demo_dashboard demo_product demo_store =
     resubmitted demo_isWhiteSpace demo_dashboard
       (demo_product\<lparr>p_specifications := Some [], p_features := Some [], p_tags := Some []\<rparr>)
       demo_store
   \<and> p_specifications demo_product \<noteq> Some []
   \<and> p_features demo_product \<noteq> Some []
   \<and> p_tags demo_product \<noteq> Some []
   \<and> fd_isActive (resubmitted demo_isWhiteSpace demo_dashboard
         (demo_product\<lparr>p_isActive := Some False\<rparr>) demo_store) \<noteq> False
   \<and> fd_name (resubmitted demo_isWhiteSpace demo_dashboard
         (demo_product\<lparr>p_name := ''Green Tea ''\<rparr>) demo_store) \<noteq> ''Green Tea ''"
  by (simp add: resubmitted_fields demo_product_def trim_def demo_isWhiteSpace_def)

theorem resubmit_roundtrip_witness:
  "requests (handleSubmit demo_isWhiteSpace demo_parseFloat
               (handleEditProduct demo_dashboard demo_product) Resolved) =
     [Put ''/api/products/7''
        \<lparr>fd_name = ''Green Tea'', fd_description = Some ''Loose leaf'', fd_price = ''250.00'',
         fd_originalPrice = Some ''300.00'', fd_categoryId = 2, fd_storeId = 5, fd_stock = 12,
         fd_images = [''https://cdn.example/tea.png''], fd_isFastSell = False,
         fd_isOnOffer = True, fd_offerPercentage = 15, fd_offerEndDate = Some ''2025-12-31'',
         fd_isActive = True\<rparr>]"
proof -
  have tr: "trim demo_isWhiteSpace ''Green Tea'' = ''Green Tea''"
    "trim demo_isWhiteSpace ''Loose leaf'' = ''Loose leaf''"
    "trim demo_isWhiteSpace ''https://cdn.example/tea.png'' = ''https://cdn.example/tea.png''"
    by (simp_all add: trim_def demo_isWhiteSpace_def)
  have v: "productSchema demo_parseFloat (form (handleEditProduct demo_dashboard demo_product))"
    by (simp add: productSchema_def priceRefine_def demo_parseFloat_def handleEditProduct_def
          demo_product_def orEmpty_def orZero_def Let_def)
  show ?thesis
    using resubmit_roundtrip [of demo_dashboard demo_store demo_product demo_parseFloat
        demo_isWhiteSpace Resolved, OF currentStore_demo _ v]
    by (simp add: resubmitted_fields demo_product_def demo_store_def tr numberToString_7
          demo_dashboard_def mounted_def orNull_def orZero_def orFalse_def orNil_def)
qed

subsection \<open>A failed create\<close>

text \<open>
  C5: when a store is selected, no product is being edited and the HTTP call of
  \<open>handleAddProduct\<close> throws, the handler changes nothing but the two logs: the request
  \<open>POST /api/products\<close> was issued and one notification of the destructive variant is
  shown, carrying the error's message (or \<open>Failed to save product\<close> when the thrown
  value is not an error object). No query key is invalidated, the cached store, product
  and order data are as before, and the form and the product being edited are
  untouched (the form is not reset).
\<close>

theorem failed_create_leaves_cache_and_form:
  assumes "currentStore s = Some st" and "editingProduct s = None"
  shows "handleAddProduct ws s data (Rejected e) =
           s\<lparr>requests := requests s @ [Post ''/api/products'' (filteredData ws data st)],
             toasts := toasts s @
               [\<lparr>toast_title = ''Error'',
                 toast_description = Some (case e of ErrorObject message \<Rightarrow> message
                                           | OtherValue \<Rightarrow> ''Failed to save product''),
                 toast_variant = Some ''destructive''\<rparr>]\<rparr>
         \<and> invalidated (handleAddProduct ws s data (Rejected e)) = invalidated s
         \<and> products_data (handleAddProduct ws s data (Rejected e)) = products_data s
         \<and> stores_data (handleAddProduct ws s data (Rejected e)) = stores_data s
         \<and> orders_data (handleAddProduct ws s data (Rejected e)) = orders_data s
         \<and> form (handleAddProduct ws s data (Rejected e)) = form s
         \<and> editingProduct (handleAddProduct ws s data (Rejected e)) = editingProduct s
         \<and> (\<exists>t. toasts (handleAddProduct ws s data (Rejected e)) = toasts s @ [t]
                \<and> toast_variant t = Some ''destructive''
                \<and> (\<forall>message. e = ErrorObject message \<longrightarrow> toast_description t = Some message))"
  using assms
  by (cases e) (simp_all add: handleAddProduct_def toast_call_def Let_def)

theorem failed_create_leaves_cache_and_form_witness:
  "handleAddProduct demo_isWhiteSpace demo_dashboard demo_form (Rejected (ErrorObject ''Network error'')) =
     demo_dashboard
       \<lparr>requests := [Post ''/api/products'' (filteredData demo_isWhiteSpace demo_form demo_store)],
        toasts := [\<lparr>toast_title = ''Error'', toast_description = Some ''Network error'',
                    toast_variant = Some ''destructive''\<rparr>]\<rparr>
   \<and> invalidated (handleAddProduct demo_isWhiteSpace demo_dashboard demo_form
                    (Rejected (ErrorObject ''Network error''))) = []
   \<and> form (handleAddProduct demo_isWhiteSpace demo_dashboard demo_form
                    (Rejected (ErrorObject ''Network error''))) = defaultValues"
  using failed_create_leaves_cache_and_form [of demo_dashboard demo_store demo_isWhiteSpace
      demo_form "ErrorObject ''Network error''", OF currentStore_demo]
  by (simp add: demo_dashboard_def mounted_def)

subsection \<open>Rejected uploads\<close>

text \<open>
  C6: a selected file larger than 2 MB (2 * 1024 * 1024 bytes), or whose content type
  does not start with \<open>image/\<close>, is rejected before it is handed to the reader: the
  only change to the dashboard is one notification of the destructive variant (titled
  \<open>File too large\<close> for an oversized file), so no file is read and the form, with its
  staged image list, is exactly as before.
\<close>

theorem rejected_upload_changes_nothing:
  assumes "file_size file > 2 * 1024 * 1024 \<or> \<not> startsWith (file_type file) ''image/''"
  shows "readAsDataURL (handleFileUpload s (Some file) result) = readAsDataURL s
         \<and> form (handleFileUpload s (Some file) result) = form s
         \<and> f_images (form (handleFileUpload s (Some file) result)) = f_images (form s)
         \<and> (\<exists>t. handleFileUpload s (Some file) result = s\<lparr>toasts := toasts s @ [t]\<rparr>
                \<and> toast_variant t = Some ''destructive''
                \<and> (file_size file > 2 * 1024 * 1024 \<longrightarrow> toast_title t = ''File too large''))"
  using assms
  by (auto simp: handleFileUpload_def toast_call_def)

theorem rejected_upload_changes_nothing_witness:
  "handleFileUpload demo_dashboard (Some \<lparr>file_size = 3 * 1024 * 1024, file_type = ''image/png''\<rparr>)
     (Some ''data:image/png;base64,AAAA'') =
     demo_dashboard\<lparr>toasts :=
       [\<lparr>toast_title = ''File too large'',
         toast_description = Some ''Please select an image smaller than 2MB'',
         toast_variant = Some ''destructive''\<rparr>]\<rparr>
   \<and> f_images (form (handleFileUpload demo_dashboard
        (Some \<lparr>file_size = 1024, file_type = ''application/pdf''\<rparr>)
        (Some ''data:application/pdf;base64,AAAA''))) = []"
  using rejected_upload_changes_nothing [of "\<lparr>file_size = 3 * 1024 * 1024, file_type = ''image/png''\<rparr>"
      demo_dashboard "Some ''data:image/png;base64,AAAA''"]
    rejected_upload_changes_nothing [of "\<lparr>file_size = 1024, file_type = ''application/pdf''\<rparr>"
      demo_dashboard "Some ''data:application/pdf;base64,AAAA''"]
  by (simp add: handleFileUpload_def toast_call_def startsWith_def demo_dashboard_def mounted_def
        defaultValues_def)

subsection \<open>Deleting a product that is gone\<close>

text \<open>
  C7, as the handler behaves: when the delete call throws, for a product that no
  longer exists as for any other failure, \<open>handleDeleteProduct\<close> catches the error and
  takes its one failure path: the notification \<open>Error\<close>, \<open>Failed to delete product\<close> of
  the destructive variant is shown and no query key is invalidated. The outcome does
  not depend on what was thrown; nothing is left unhandled, and nothing is reported as
  a success.
\<close>

theorem delete_failure_path:
  "handleDeleteProduct s productId True (Rejected e) =
     s\<lparr>requests := requests s @ [Delete (''/api/products/'' @ numberToString productId)],
       toasts := toasts s @
         [\<lparr>toast_title = ''Error'', toast_description = Some ''Failed to delete product'',
           toast_variant = Some ''destructive''\<rparr>]\<rparr>
   \<and> invalidated (handleDeleteProduct s productId True (Rejected e)) = invalidated s
   \<and> handleDeleteProduct s productId True (Rejected e) =
       handleDeleteProduct s productId True (Rejected e')"
  by (simp add: handleDeleteProduct_def toast_call_def)

text \<open>
  Deleting product 7 when the call throws a not-found error ends with the error
  notification and no invalidation, unlike a delete that succeeds.
\<close>

theorem delete_missing_counterexample:
  "toasts (handleDeleteProduct demo_dashboard 7 True (Rejected (ErrorObject ''404: Product not found''))) =
     [\<lparr>toast_title = ''Error'', toast_description = Some ''Failed to delete product'',
       toast_variant = Some ''destructive''\<rparr>]
   \<and> toasts (handleDeleteProduct demo_dashboard 7 True Resolved) =
     [\<lparr>toast_title = ''Product deleted successfully'', toast_description = None,
       toast_variant = None\<rparr>]
   \<and> invalidated (handleDeleteProduct demo_dashboard 7 True (Rejected (ErrorObject ''404: Product not found''))) = []
   \<and> invalidated (handleDeleteProduct demo_dashboard 7 True Resolved) =
     [[''/api/products/store/5''], [''/api/products'']]
   \<and> handleDeleteProduct demo_dashboard 7 True (Rejected (ErrorObject ''404: Product not found'')) \<noteq>
     handleDeleteProduct demo_dashboard 7 True Resolved"
proof -
  have a: "toasts (handleDeleteProduct demo_dashboard 7 True (Rejected (ErrorObject ''404: Product not found''))) =
     [\<lparr>toast_title = ''Error'', toast_description = Some ''Failed to delete product'',
       toast_variant = Some ''destructive''\<rparr>]"
    by (simp add: handleDeleteProduct_def toast_call_def demo_dashboard_def mounted_def)
  have b: "toasts (handleDeleteProduct demo_dashboard 7 True Resolved) =
     [\<lparr>toast_title = ''Product deleted successfully'', toast_description = None,
       toast_variant = None\<rparr>]"
    by (simp add: handleDeleteProduct_def toast_call_def invalidateQueries_def currentStore_demo)
       (simp add: demo_dashboard_def mounted_def)
  have c: "invalidated (handleDeleteProduct demo_dashboard 7 True (Rejected (ErrorObject ''404: Product not found''))) = []"
    by (simp add: handleDeleteProduct_def toast_call_def demo_dashboard_def mounted_def)
  have d: "invalidated (handleDeleteProduct demo_dashboard 7 True Resolved) =
     [[''/api/products/store/5''], [''/api/products'']]"
    by (simp add: handleDeleteProduct_def toast_call_def invalidateQueries_def currentStore_demo)
       (simp add: demo_dashboard_def mounted_def demo_store_def numberToString_5)
  have e: "handleDeleteProduct demo_dashboard 7 True (Rejected (ErrorObject ''404: Product not found'')) \<noteq>
     handleDeleteProduct demo_dashboard 7 True Resolved"
    using c d by auto
  from a b c d e show ?thesis by blast
qed

theorem delete_failure_path_witness:
  "handleDeleteProduct demo_dashboard 7 True (Rejected (ErrorObject ''404: Product not found'')) =
     demo_dashboard\<lparr>requests := [Delete ''/api/products/7''],
       toasts := [\<lparr>toast_title = ''Error'', toast_description = Some ''Failed to delete product'',
                   toast_variant = Some ''destructive''\<rparr>]\<rparr>"
  using delete_failure_path [of demo_dashboard 7 "ErrorObject ''404: Product not found''" OtherValue]
  by (simp add: numberToString_7 demo_dashboard_def mounted_def)

subsection \<open>Searching the store list\<close>

text \<open>
  C8: for a list of stores and a search string \<open>q\<close>, \<open>filteredStores\<close> keeps, in order,
  exactly the stores for which \<open>q\<close> is empty or whose name, description (when present)
  or address (when present), put in lower case by \<open>toLowerCase\<close>, contains \<open>q\<close> put in
  lower case as a contiguous run. Since \<open>toLowerCase\<close> of the empty string is empty,
  these are exactly the stores one of whose three fields contains \<open>q\<close> in this sense;
  for the empty search string the result is the whole list. Two non-empty search
  strings with the same lower case select the same stores.
\<close>

theorem filteredStores_spec:
  "filteredStores toLowerCase (Some sts) q =
     filter (\<lambda>st. q = []
                \<or> sublist (toLowerCase q) (toLowerCase (store_name st))
                \<or> (\<exists>d. store_description st = Some d \<and> sublist (toLowerCase q) (toLowerCase d))
                \<or> (\<exists>a. store_address st = Some a \<and> sublist (toLowerCase q) (toLowerCase a))) sts
   \<and> (toLowerCase [] = [] \<longrightarrow>
        filteredStores toLowerCase (Some sts) q =
          filter (\<lambda>st. sublist (toLowerCase q) (toLowerCase (store_name st))
                \<or> (\<exists>d. store_description st = Some d \<and> sublist (toLowerCase q) (toLowerCase d))
                \<or> (\<exists>a. store_address st = Some a \<and> sublist (toLowerCase q) (toLowerCase a))) sts)
   \<and> filteredStores toLowerCase (Some sts) [] = sts
   \<and> (toLowerCase q = toLowerCase q' \<and> q \<noteq> [] \<and> q' \<noteq> [] \<longrightarrow>
        filteredStores toLowerCase (Some sts) q = filteredStores toLowerCase (Some sts) q')"
proof -
  have m: "matchesSearch toLowerCase q st \<longleftrightarrow>
        (q = []
         \<or> sublist (toLowerCase q) (toLowerCase (store_name st))
         \<or> (\<exists>d. store_description st = Some d \<and> sublist (toLowerCase q) (toLowerCase d))
         \<or> (\<exists>a. store_address st = Some a \<and> sublist (toLowerCase q) (toLowerCase a)))" for st
    by (auto simp: matchesSearch_def str_includes_sublist split: option.splits)
  have c1: "filter (matchesSearch toLowerCase q) sts =
     filter (\<lambda>st. q = []
                \<or> sublist (toLowerCase q) (toLowerCase (store_name st))
                \<or> (\<exists>d. store_description st = Some d \<and> sublist (toLowerCase q) (toLowerCase d))
                \<or> (\<exists>a. store_address st = Some a \<and> sublist (toLowerCase q) (toLowerCase a))) sts"
    by (rule filter_cong) (simp_all add: m)
  have c2: "filter (matchesSearch toLowerCase q) sts =
     filter (\<lambda>st. sublist (toLowerCase q) (toLowerCase (store_name st))
                \<or> (\<exists>d. store_description st = Some d \<and> sublist (toLowerCase q) (toLowerCase d))
                \<or> (\<exists>a. store_address st = Some a \<and> sublist (toLowerCase q) (toLowerCase a))) sts"
    if "toLowerCase [] = []"
  proof (rule filter_cong)
    fix st
    show "matchesSearch toLowerCase q st =
       (sublist (toLowerCase q) (toLowerCase (store_name st))
        \<or> (\<exists>d. store_description st = Some d \<and> sublist (toLowerCase q) (toLowerCase d))
        \<or> (\<exists>a. store_address st = Some a \<and> sublist (toLowerCase q) (toLowerCase a)))"
    proof (cases "q = []")
      case True
      then show ?thesis using that by (simp add: matchesSearch_def)
    next
      case False
      then show ?thesis by (simp add: m)
    qed
  qed simp
  have c3: "filter (matchesSearch toLowerCase []) sts = sts"
    by (simp add: matchesSearch_def)
  have c4: "filter (matchesSearch toLowerCase q) sts = filter (matchesSearch toLowerCase q') sts"
    if "toLowerCase q = toLowerCase q'" "q \<noteq> []" "q' \<noteq> []"
  proof -
    have "matchesSearch toLowerCase q = matchesSearch toLowerCase q'"
      using that by (simp add: matchesSearch_def fun_eq_iff split: option.splits)
    then show ?thesis by simp
  qed
  from c1 c2 c3 c4 show ?thesis
    by (simp add: filteredStores_def)
qed

theorem filteredStores_spec_witness:
  "filteredStores demo_toLowerCase (Some [demo_store, demo_store2, demo_store3]) ''tea'' = [demo_store]
   \<and> filteredStores demo_toLowerCase (Some [demo_store, demo_store2, demo_store3]) ''TEA'' = [demo_store]
   \<and> filteredStores demo_toLowerCase (Some [demo_store, demo_store2, demo_store3]) ''iTaHaRi'' =
       [demo_store2]
   \<and> filteredStores demo_toLowerCase (Some [demo_store, demo_store2, demo_store3])
        (''CAF'' @ [CHR 0xC9]) = [demo_store3]
   \<and> filteredStores demo_toLowerCase (Some [demo_store, demo_store2, demo_store3]) [] =
       [demo_store, demo_store2, demo_store3]"
proof -
  have a: "filteredStores demo_toLowerCase (Some [demo_store, demo_store2, demo_store3]) ''tea'' =
             [demo_store]"
    by code_simp
  have b: "filteredStores demo_toLowerCase (Some [demo_store, demo_store2, demo_store3]) ''iTaHaRi'' =
             [demo_store2]"
    by code_simp
  have b': "filteredStores demo_toLowerCase (Some [demo_store, demo_store2, demo_store3])
              (''CAF'' @ [CHR 0xC9]) = [demo_store3]"
    by code_simp
  have l: "demo_toLowerCase ''TEA'' = demo_toLowerCase ''tea''"
    by code_simp
  have c: "filteredStores demo_toLowerCase (Some [demo_store, demo_store2, demo_store3]) ''TEA'' =
           filteredStores demo_toLowerCase (Some [demo_store, demo_store2, demo_store3]) ''tea''"
    using filteredStores_spec [of demo_toLowerCase "[demo_store, demo_store2, demo_store3]"
        "''TEA''" "''tea''"] l
    by blast
  have d: "filteredStores demo_toLowerCase (Some [demo_store, demo_store2, demo_store3]) [] =
             [demo_store, demo_store2, demo_store3]"
    using filteredStores_spec [of demo_toLowerCase "[demo_store, demo_store2, demo_store3]" "[]" "[]"]
    by blast
  from a b b' c d show ?thesis by simp
qed

subsection \<open>Offer fields and images of the payload\<close>

text \<open>
  C9: when the submitted form data has \<open>isOnOffer\<close> false, the payload built from it
  has \<open>offerPercentage\<close> \<open>0\<close> and \<open>offerEndDate\<close> null, whatever the form held in those
  fields; and \<open>handleAddProduct\<close>, for a create as for an update, sends exactly one
  request when a store is selected (none otherwise), whose payload has these two values.
\<close>

theorem offer_cleared_when_not_on_offer:
  assumes "\<not> f_isOnOffer data"
  shows "fd_offerPercentage (filteredData ws data st) = 0
         \<and> fd_offerEndDate (filteredData ws data st) = None
         \<and> (case currentStore s of
               None \<Rightarrow> requests (handleAddProduct ws s data res) = requests s
             | Some cs \<Rightarrow>
                 (\<exists>req fd. requests (handleAddProduct ws s data res) = requests s @ [req]
                    \<and> payload_of req = Some fd
                    \<and> fd_offerPercentage fd = 0 \<and> fd_offerEndDate fd = None))"
proof -
  have off: "\<And>cs. fd_offerPercentage (filteredData ws data cs) = 0
                  \<and> fd_offerEndDate (filteredData ws data cs) = None"
    using assms by (simp add: filteredData_def)
  show ?thesis
  proof (cases "currentStore s")
    case None
    then show ?thesis using off by (simp add: handleAddProduct_no_store)
  next
    case (Some cs)
    from handleAddProduct_requests [OF this, of ws data res] off [of cs] off [of st] Some
    show ?thesis
      by (simp add: payload_of_save_request)
  qed
qed

theorem offer_cleared_when_not_on_offer_witness:
  "f_offerPercentage demo_form = 25
   \<and> f_offerEndDate demo_form = Some ''2025-12-31''
   \<and> fd_offerPercentage (filteredData demo_isWhiteSpace demo_form demo_store) = 0
   \<and> fd_offerEndDate (filteredData demo_isWhiteSpace demo_form demo_store) = None
   \<and> requests (handleAddProduct demo_isWhiteSpace demo_dashboard demo_form Resolved) =
       [Post ''/api/products'' (filteredData demo_isWhiteSpace demo_form demo_store)]"
proof -
  have n: "\<not> f_isOnOffer demo_form"
    by (simp add: demo_form_def)
  have r: "requests (handleAddProduct demo_isWhiteSpace demo_dashboard demo_form Resolved) =
       [Post ''/api/products'' (filteredData demo_isWhiteSpace demo_form demo_store)]"
    using handleAddProduct_requests [OF currentStore_demo, of demo_isWhiteSpace demo_form Resolved]
    by (simp add: demo_dashboard_def mounted_def)
  from offer_cleared_when_not_on_offer [OF n, of demo_isWhiteSpace demo_store demo_dashboard Resolved] r
  show ?thesis
    by (simp add: demo_form_def)
qed

text \<open>
  C10: the images of the payload are the staged images that are not blank (not empty
  and not made only of code units that \<open>trim\<close> strips), in their staged order: no entry
  of the payload's list is empty or all white space, the list is a subsequence of the
  staged list, and the one request \<open>handleAddProduct\<close> sends, for a create as for an
  update, carries this list.
\<close>

theorem payload_images_not_blank:
  "fd_images (filteredData ws data st) = filter (\<lambda>img. \<not> list_all ws img) (f_images data)
   \<and> (\<forall>img \<in> set (fd_images (filteredData ws data st)).
         img \<noteq> [] \<and> (\<exists>c \<in> set img. \<not> ws c))
   \<and> subseq (fd_images (filteredData ws data st)) (f_images data)
   \<and> (case currentStore s of
         None \<Rightarrow> requests (handleAddProduct ws s data res) = requests s
       | Some cs \<Rightarrow>
           (\<exists>req fd. requests (handleAddProduct ws s data res) = requests s @ [req]
              \<and> payload_of req = Some fd
              \<and> fd_images fd = filter (\<lambda>img. \<not> list_all ws img) (f_images data)))"
proof -
  have im: "\<And>cs. fd_images (filteredData ws data cs) =
                   filter (\<lambda>img. \<not> list_all ws img) (f_images data)"
    by (simp add: filteredData_def trim_Nil_iff)
  have nb: "\<forall>img \<in> set (fd_images (filteredData ws data st)).
              img \<noteq> [] \<and> (\<exists>c \<in> set img. \<not> ws c)"
    by (auto simp: im list_all_iff)
  have sq: "subseq (fd_images (filteredData ws data st)) (f_images data)"
    by (simp add: im)
  have rq: "case currentStore s of
         None \<Rightarrow> requests (handleAddProduct ws s data res) = requests s
       | Some cs \<Rightarrow>
           (\<exists>req fd. requests (handleAddProduct ws s data res) = requests s @ [req]
              \<and> payload_of req = Some fd
              \<and> fd_images fd = filter (\<lambda>img. \<not> list_all ws img) (f_images data))"
  proof (cases "currentStore s")
    case None
    then show ?thesis by (simp add: handleAddProduct_no_store)
  next
    case (Some cs)
    from handleAddProduct_requests [OF this, of ws data res] im [of cs] Some
    show ?thesis
      by (simp add: payload_of_save_request)
  qed
  from im [of st] nb sq rq show ?thesis by blast
qed

theorem payload_images_not_blank_witness:
  "f_images demo_form =
     [''https://cdn.example/chai.png'', [], ''   '', ''data:image/jpeg;base64,AAAA'']
   \<and> fd_images (filteredData demo_isWhiteSpace demo_form demo_store) =
     [''https://cdn.example/chai.png'', ''data:image/jpeg;base64,AAAA'']
   \<and> fd_images (filteredData demo_isWhiteSpace
        (demo_form\<lparr>f_images := [[CHR 0xA0], ''a'']\<rparr>) demo_store) = [''a'']"
proof -
  have ev: "filter (\<lambda>img. \<not> list_all demo_isWhiteSpace img) (f_images demo_form) =
     [''https://cdn.example/chai.png'', ''data:image/jpeg;base64,AAAA'']"
    by (simp add: demo_form_def demo_isWhiteSpace_def)
  from payload_images_not_blank [of demo_isWhiteSpace demo_form demo_store demo_dashboard Resolved] ev
  have a: "fd_images (filteredData demo_isWhiteSpace demo_form demo_store) =
     [''https://cdn.example/chai.png'', ''data:image/jpeg;base64,AAAA'']"
    by simp
  have ev': "filter (\<lambda>img. \<not> list_all demo_isWhiteSpace img)
               (f_images (demo_form\<lparr>f_images := [[CHR 0xA0], ''a'']\<rparr>)) = [''a'']"
    by (simp add: demo_isWhiteSpace_def)
  from payload_images_not_blank [of demo_isWhiteSpace "demo_form\<lparr>f_images := [[CHR 0xA0], ''a'']\<rparr>"
      demo_store demo_dashboard Resolved] ev'
  have b: "fd_images (filteredData demo_isWhiteSpace
        (demo_form\<lparr>f_images := [[CHR 0xA0], ''a'']\<rparr>) demo_store) = [''a'']"
    by simp
  from a b show ?thesis
    by (simp add: demo_form_def)
qed

end
